theory Spec2Isabelle
  imports Complex_Main "HOL-Library.AList"
begin

section \<open>The Python values the facade handles\<close>

text \<open>
  The source is \<^verbatim>\<open>src/amplpy/ampl.py\<close>, class \<^verbatim>\<open>AMPL\<close>. It is Python 2 code: its
  \<^verbatim>\<open>setOption\<close> tests \<^verbatim>\<open>isinstance(value, basestring)\<close>, and \<^verbatim>\<open>basestring\<close> is a
  builtin of Python 2 only. The model therefore has Python 2's builtin classes: \<^verbatim>\<open>int\<close>
  (machine range) and \<^verbatim>\<open>long\<close>, \<^verbatim>\<open>bool\<close> as a subclass of \<^verbatim>\<open>int\<close>, and \<^verbatim>\<open>str\<close> and
  \<^verbatim>\<open>unicode\<close> as the two subclasses of \<^verbatim>\<open>basestring\<close>.
\<close>

text \<open>
  A Python float. \<open>Finite neg q\<close> stands for the double that the runtime's conversion
  gives for the magnitude \<open>q\<close> with sign bit \<open>neg\<close> (the rounding to 53 bits is the
  runtime's and is not modelled); \<open>Infinity neg\<close> and \<open>NaN\<close> are the special values.
\<close>

datatype pyfloat = Finite bool rat | Infinity bool | NaN

text \<open>The five kinds of entity, as the wrapper classes the source imports.\<close>

datatype kind = Variable | Constraint | Objective | Set | Parameter

text \<open>
  Modelled from the spec: a value held by the engine. The docstring of \<^verbatim>\<open>getValue\<close> has
  "a double or a string".
\<close>

datatype datum = Num pyfloat | Str string

text \<open>
  Modelled from the spec: the class \<^verbatim>\<open>DataFrame\<close> is missing from the source files. A
  tabular frame (the spec's TabularFrame) has the column names, the index columns first
  and the value column last, and the rows in order, each an index tuple with its value.
\<close>

record frame =
  columnNames :: "string list"
  rows :: "(datum list \<times> datum) list"

text \<open>
  Modelled from the spec: the native binding is missing from the source files. What an
  engine call hands back through it is a reference to an entity of a kind, to the
  collection of all entities of a kind (the names in the engine's order), or to a frame.
\<close>

datatype handle =
    EntityRef kind string
  | EntityMapRef kind "string list"
  | DataFrameRef frame

datatype pyval =
    PyNone
  | PyBool bool
  | PyInt int
  | PyLong int
  | PyFloat pyfloat
  | PyStr string
  | PyUnicode string
  | PyList "pyval list"
  | PyObject nat
  | PyHandle handle
  | Entity kind pyval
  | DataFrame pyval
  | MapEntities kind pyval

text \<open>
  \<open>PyObject n\<close> is an instance of a user class that derives from \<^verbatim>\<open>object\<close> alone (a
  callback, a handler), known by its identity \<open>n\<close>. \<open>PyHandle\<close> is the proxy object of the
  native binding. \<open>Entity k h\<close> is \<^verbatim>\<open>Variable(h)\<close>, \<^verbatim>\<open>Constraint(h)\<close>, \<^verbatim>\<open>Objective(h)\<close>,
  \<^verbatim>\<open>Set.fromSetRef(h)\<close> or \<^verbatim>\<open>Parameter.fromParameterRef(h)\<close>; \<open>DataFrame h\<close> is
  \<^verbatim>\<open>DataFrame.fromDataFrameRef(h)\<close>, whose \<^verbatim>\<open>_impl\<close> is \<open>h\<close>; \<open>MapEntities k h\<close> is
  \<^verbatim>\<open>MapEntities(cls, h)\<close>. These classes are imported by the source and not part of it:
  they are modelled as plain wrappers.
\<close>

datatype pyclass =
    ObjectT | IntT | LongT | BoolT | FloatT | BasestringT | StrT | UnicodeT
  | NoneT | ListT | InstanceT | ProxyT | EntityT kind | DataFrameT | MapEntitiesT

fun type_of :: "pyval \<Rightarrow> pyclass" where
  "type_of PyNone = NoneT"
| "type_of (PyBool b) = BoolT"
| "type_of (PyInt i) = IntT"
| "type_of (PyLong i) = LongT"
| "type_of (PyFloat f) = FloatT"
| "type_of (PyStr s) = StrT"
| "type_of (PyUnicode s) = UnicodeT"
| "type_of (PyList vs) = ListT"
| "type_of (PyObject n) = InstanceT"
| "type_of (PyHandle h) = ProxyT"
| "type_of (Entity k h) = EntityT k"
| "type_of (DataFrame h) = DataFrameT"
| "type_of (MapEntities k h) = MapEntitiesT"

text \<open>
  The class hierarchy of Python 2: every class derives from \<^verbatim>\<open>object\<close>, \<^verbatim>\<open>bool\<close> from
  \<^verbatim>\<open>int\<close>, \<^verbatim>\<open>str\<close> and \<^verbatim>\<open>unicode\<close> from \<^verbatim>\<open>basestring\<close>. \<^verbatim>\<open>long\<close> does not derive from
  \<^verbatim>\<open>int\<close>.
\<close>

fun issubclass :: "pyclass \<Rightarrow> pyclass \<Rightarrow> bool" where
  "issubclass c ObjectT = True"
| "issubclass BoolT IntT = True"
| "issubclass StrT BasestringT = True"
| "issubclass UnicodeT BasestringT = True"
| "issubclass c d = (c = d)"

definition isinstance :: "pyval \<Rightarrow> pyclass \<Rightarrow> bool" where
  "isinstance v c = issubclass (type_of v) c"

text \<open>
  The exceptions. \<open>TypeError\<close>, \<open>ValueError\<close>, \<open>AttributeError\<close>, \<open>RuntimeError\<close> and
  \<open>NotImplementedError\<close> are Python's. The others are the failures the engine reports,
  under the names of the spec's taxonomy: \<open>EngineNotRunningError\<close> is the
  \<^verbatim>\<open>RuntimeError\<close> that the docstrings of \<^verbatim>\<open>eval\<close> and \<^verbatim>\<open>solve\<close> announce when the
  interpreter is not running; the spec's UnsupportedOptionTypeError is the \<open>TypeError\<close>
  that \<^verbatim>\<open>setOption\<close> raises.
\<close>

datatype pyexc =
    TypeError | ValueError | AttributeError | RuntimeError | NotImplementedError
  | EngineNotRunningError | NotFoundError | UnknownColumnError | IndexMismatchError
  | EngineReportedError

text \<open>
  \<open>catches h x\<close>: the clause \<^verbatim>\<open>except h\<close> handles a raised \<open>x\<close>. In Python
  \<^verbatim>\<open>NotImplementedError\<close> derives from \<^verbatim>\<open>RuntimeError\<close>.
\<close>

fun catches :: "pyexc \<Rightarrow> pyexc \<Rightarrow> bool" where
  "catches RuntimeError NotImplementedError = True"
| "catches RuntimeError EngineNotRunningError = True"
| "catches h x = (h = x)"

section \<open>The builtins \<^verbatim>\<open>int\<close> and \<^verbatim>\<open>float\<close> on a string\<close>

text \<open>
  \<^verbatim>\<open>getOption\<close> applies \<^verbatim>\<open>int(value)\<close> and \<^verbatim>\<open>float(value)\<close> to the string the engine
  stores. Both follow the grammar of the Python 2.7 library reference: an integer literal
  in base 10 is "optionally preceded by + or - (with no space in between) and surrounded
  by whitespace"; a float is a possibly signed decimal number with an optional fraction
  and exponent, or \<^verbatim>\<open>inf\<close>, \<^verbatim>\<open>infinity\<close> or \<^verbatim>\<open>nan\<close> in any case, surrounded by
  whitespace. A string outside the grammar raises \<^verbatim>\<open>ValueError\<close>.
\<close>

definition isspace :: "char \<Rightarrow> bool" where
  "isspace c = (c \<in> set [CHR '' '', CHR 0x09, CHR 0x0A, CHR 0x0B, CHR 0x0C, CHR 0x0D])"

definition isdigit :: "char \<Rightarrow> bool" where
  "isdigit c = (c \<in> set ''0123456789'')"

definition strip :: "string \<Rightarrow> string" where
  "strip s = rev (dropWhile isspace (rev (dropWhile isspace s)))"

text \<open>The value of a decimal digit: its code less the code of \<^verbatim>\<open>0\<close>.\<close>

definition digit_value :: "char \<Rightarrow> nat" where
  "digit_value c = of_char c - of_char CHR ''0''"

definition digits_value :: "string \<Rightarrow> nat" where
  "digits_value ds = foldl (\<lambda>a c. 10 * a + digit_value c) 0 ds"

text \<open>The optional sign: whether it is a minus, and the rest of the string.\<close>

fun split_sign :: "string \<Rightarrow> bool \<times> string" where
  "split_sign [] = (False, [])"
| "split_sign (c # cs) =
     (if c = CHR ''-'' then (True, cs) else if c = CHR ''+'' then (False, cs)
      else (False, c # cs))"

definition all_digits :: "string \<Rightarrow> bool" where
  "all_digits ds = (ds \<noteq> [] \<and> list_all isdigit ds)"

text \<open>The integer a string denotes, if it is an integer literal.\<close>

definition int_literal :: "string \<Rightarrow> int option" where
  "int_literal s =
     (case split_sign (strip s) of
        (neg, ds) \<Rightarrow>
          if all_digits ds
          then Some (if neg then - int (digits_value ds) else int (digits_value ds))
          else None)"

text \<open>
  Python 2 gives an \<^verbatim>\<open>int\<close> for a value of the machine range and a \<^verbatim>\<open>long\<close> beyond it;
  \<open>maxint\<close> is \<^verbatim>\<open>sys.maxint\<close>, a constant of the platform.
\<close>

definition int_or_long :: "int \<Rightarrow> int \<Rightarrow> pyval" where
  "int_or_long maxint i = (if - maxint - 1 \<le> i \<and> i \<le> maxint then PyInt i else PyLong i)"

definition py_int :: "int \<Rightarrow> string \<Rightarrow> pyexc + pyval" where
  "py_int maxint s =
     (case int_literal s of None \<Rightarrow> Inl ValueError | Some i \<Rightarrow> Inr (int_or_long maxint i))"

text \<open>A word compared without regard to case, given in lower and in upper case.\<close>

fun ieq :: "string \<Rightarrow> string \<Rightarrow> string \<Rightarrow> bool" where
  "ieq [] [] [] = True"
| "ieq (c # cs) (l # ls) (u # us) = ((c = l \<or> c = u) \<and> ieq cs ls us)"
| "ieq cs ls us = False"

text \<open>The exponent part: empty, or \<^verbatim>\<open>e\<close> or \<^verbatim>\<open>E\<close>, an optional sign and digits.\<close>

definition exponent_part :: "string \<Rightarrow> int option" where
  "exponent_part s =
     (case s of
        [] \<Rightarrow> Some 0
      | c # cs \<Rightarrow>
          if c = CHR ''e'' \<or> c = CHR ''E''
          then (case split_sign cs of
                  (neg, ds) \<Rightarrow>
                    if all_digits ds
                    then Some (if neg then - int (digits_value ds) else int (digits_value ds))
                    else None)
          else None)"

text \<open>The magnitude \<open>m * 10 ^ e\<close> as a rational.\<close>

definition scale10 :: "nat \<Rightarrow> int \<Rightarrow> rat" where
  "scale10 m e =
     (if 0 \<le> e then of_nat (m * 10 ^ nat e) else of_nat m / of_nat (10 ^ nat (- e)))"

definition decimal_literal :: "string \<Rightarrow> rat option" where
  "decimal_literal s =
     (let ip = takeWhile isdigit s;
          r1 = dropWhile isdigit s;
          point = (r1 \<noteq> [] \<and> hd r1 = CHR ''.'');
          fp = (if point then takeWhile isdigit (tl r1) else []);
          r2 = (if point then dropWhile isdigit (tl r1) else r1)
      in if ip = [] \<and> fp = [] then None
         else (case exponent_part r2 of
                 None \<Rightarrow> None
               | Some e \<Rightarrow> Some (scale10 (digits_value (ip @ fp)) (e - int (length fp)))))"

definition float_literal :: "string \<Rightarrow> pyfloat option" where
  "float_literal s =
     (case split_sign (strip s) of
        (neg, t) \<Rightarrow>
          if ieq t ''inf'' ''INF'' \<or> ieq t ''infinity'' ''INFINITY'' then Some (Infinity neg)
          else if ieq t ''nan'' ''NAN'' then Some NaN
          else map_option (Finite neg) (decimal_literal t))"

definition py_float :: "string \<Rightarrow> pyexc + pyval" where
  "py_float s =
     (case float_literal s of None \<Rightarrow> Inl ValueError | Some f \<Rightarrow> Inr (PyFloat f))"

section \<open>The engine interface\<close>

text \<open>
  The methods of the native engine object \<^verbatim>\<open>self._impl\<close> (an \<^verbatim>\<open>amplpython.AMPL\<close>) that the
  source calls, with their arguments. The source calls no floating-point setter (the
  spec's engine interface lists one, \<^verbatim>\<open>setFloatOption\<close>), so none is among them.
\<close>

datatype ecall =
    GetData "string list" nat
  | GetVariable string | GetConstraint string | GetObjective string
  | GetSet string | GetParameter string
  | Eval string
  | Close
  | IsRunning
  | IsBusy
  | Solve
  | Cd
  | CdTo pyval
  | SetIntOption string pyval
  | SetBoolOption string pyval
  | SetOption string pyval
  | GetOption string
  | Read string
  | ReadData string
  | GetValue string
  | SetData pyval
  | SetOutputHandler pyval
  | SetErrorHandler pyval
  | GetOutputHandler
  | GetErrorHandler
  | GetVariables | GetConstraints | GetObjectives | GetSets | GetParameters

text \<open>
  The engine is not part of the source: the facade is modelled over any engine. An
  engine with states \<open>'e\<close> answers a call with an exception or a value and a new state.
  \<open>option_value E name\<close> is the call \<^verbatim>\<open>self._impl.getOption(name).value()\<close>, the only
  answer the facade inspects: it is a string (spec: \<^verbatim>\<open>getOption(handle, name) -> string | Error\<close>).
  Every other call goes through \<open>call\<close>.
\<close>

record 'e engine =
  call :: "ecall \<Rightarrow> 'e \<Rightarrow> (pyexc + pyval) \<times> 'e"
  option_value :: "string \<Rightarrow> 'e \<Rightarrow> (pyexc + string) \<times> 'e"

section \<open>The facade: class \<^verbatim>\<open>AMPL\<close>\<close>

text \<open>
  The object's fields, as \<^verbatim>\<open>__init__\<close> sets them: \<^verbatim>\<open>_impl\<close>, \<^verbatim>\<open>_outputhandler\<close> and
  \<^verbatim>\<open>_errorhandler\<close> (the last two \<^verbatim>\<open>None\<close> at first). The class has no other field: in
  particular it keeps no collection of entities of its own. The constructor, which starts
  a fresh engine, and \<^verbatim>\<open>__del__\<close>, which calls \<^verbatim>\<open>close\<close>, are not among the methods
  modelled below.
\<close>

record 'e ampl =
  impl :: 'e
  outputhandler :: pyval
  errorhandler :: pyval

text \<open>
  What a method call gives: the exception raised or the value returned, the engine calls
  it made, in order, and the object afterwards.
\<close>

type_synonym 'e outcome = "(pyexc + pyval) \<times> ecall list \<times> 'e ampl"

text \<open>\<^verbatim>\<open>self._impl.m(args)\<close>: one engine call, its answer passed on.\<close>

definition forward :: "'e engine \<Rightarrow> ecall \<Rightarrow> 'e ampl \<Rightarrow> 'e outcome" where
  "forward E c self =
     (case call E c (impl self) of (r, e') \<Rightarrow> (r, [c], self\<lparr>impl := e'\<rparr>))"

text \<open>A wrapper applied to the value returned; an exception passes through.\<close>

definition wrap :: "(pyval \<Rightarrow> pyval) \<Rightarrow> 'e outcome \<Rightarrow> 'e outcome" where
  "wrap f out =
     (case out of (Inl x, cs, s) \<Rightarrow> (Inl x, cs, s) | (Inr v, cs, s) \<Rightarrow> (Inr (f v), cs, s))"

text \<open>A statement whose value is dropped: the method then returns \<^verbatim>\<open>None\<close>.\<close>

definition discard :: "'e outcome \<Rightarrow> 'e outcome" where
  "discard out = wrap (\<lambda>v. PyNone) out"

definition raise :: "pyexc \<Rightarrow> 'e ampl \<Rightarrow> 'e outcome" where
  "raise x self = (Inl x, [], self)"

definition getData :: "'e engine \<Rightarrow> string list \<Rightarrow> 'e ampl \<Rightarrow> 'e outcome" where
  "getData E statements self =
     wrap DataFrame (forward E (GetData statements (length statements)) self)"

definition getEntity :: "string \<Rightarrow> 'e ampl \<Rightarrow> 'e outcome" where
  "getEntity name self = raise NotImplementedError self"

definition getVariable :: "'e engine \<Rightarrow> string \<Rightarrow> 'e ampl \<Rightarrow> 'e outcome" where
  "getVariable E name self = wrap (Entity Variable) (forward E (GetVariable name) self)"

definition getConstraint :: "'e engine \<Rightarrow> string \<Rightarrow> 'e ampl \<Rightarrow> 'e outcome" where
  "getConstraint E name self = wrap (Entity Constraint) (forward E (GetConstraint name) self)"

definition getObjective :: "'e engine \<Rightarrow> string \<Rightarrow> 'e ampl \<Rightarrow> 'e outcome" where
  "getObjective E name self = wrap (Entity Objective) (forward E (GetObjective name) self)"

definition getSet :: "'e engine \<Rightarrow> string \<Rightarrow> 'e ampl \<Rightarrow> 'e outcome" where
  "getSet E name self = wrap (Entity Set) (forward E (GetSet name) self)"

definition getParameter :: "'e engine \<Rightarrow> string \<Rightarrow> 'e ampl \<Rightarrow> 'e outcome" where
  "getParameter E name self = wrap (Entity Parameter) (forward E (GetParameter name) self)"

definition eval :: "'e engine \<Rightarrow> string \<Rightarrow> 'e ampl \<Rightarrow> 'e outcome" where
  "eval E amplstatements self = discard (forward E (Eval amplstatements) self)"

text \<open>\<^verbatim>\<open>reset\<close> goes through \<^verbatim>\<open>eval\<close>; the engine's own reset is commented out in the source.\<close>

definition reset :: "'e engine \<Rightarrow> 'e ampl \<Rightarrow> 'e outcome" where
  "reset E self = discard (eval E ''reset;'' self)"

definition close :: "'e engine \<Rightarrow> 'e ampl \<Rightarrow> 'e outcome" where
  "close E self = discard (forward E Close self)"

definition isRunning :: "'e engine \<Rightarrow> 'e ampl \<Rightarrow> 'e outcome" where
  "isRunning E self = discard (forward E IsRunning self)"

definition isBusy :: "'e engine \<Rightarrow> 'e ampl \<Rightarrow> 'e outcome" where
  "isBusy E self = discard (forward E IsBusy self)"

definition solve :: "'e engine \<Rightarrow> 'e ampl \<Rightarrow> 'e outcome" where
  "solve E self = discard (forward E Solve self)"

definition readAsync :: "string \<Rightarrow> pyval \<Rightarrow> 'e ampl \<Rightarrow> 'e outcome" where
  "readAsync filename callback self = raise NotImplementedError self"

definition readDataAsync :: "string \<Rightarrow> pyval \<Rightarrow> 'e ampl \<Rightarrow> 'e outcome" where
  "readDataAsync filename callback self = raise NotImplementedError self"

definition evalAsync :: "string \<Rightarrow> pyval \<Rightarrow> 'e ampl \<Rightarrow> 'e outcome" where
  "evalAsync amplstatements callback self = raise NotImplementedError self"

definition solveAsync :: "pyval \<Rightarrow> 'e ampl \<Rightarrow> 'e outcome" where
  "solveAsync callback self = raise NotImplementedError self"

definition interrupt :: "'e ampl \<Rightarrow> 'e outcome" where
  "interrupt self = raise NotImplementedError self"

definition cd :: "'e engine \<Rightarrow> pyval \<Rightarrow> 'e ampl \<Rightarrow> 'e outcome" where
  "cd E path self = (if path = PyNone then forward E Cd self else forward E (CdTo path) self)"

text \<open>
  \<^verbatim>\<open>setOption\<close>, branch by branch as the source has them: \<^verbatim>\<open>int\<close> first, then \<^verbatim>\<open>float\<close>
  (which calls \<^verbatim>\<open>setIntOption\<close> too), then \<^verbatim>\<open>bool\<close>, then \<^verbatim>\<open>basestring\<close>, else
  \<^verbatim>\<open>raise TypeError\<close>.
\<close>

definition setOption :: "'e engine \<Rightarrow> string \<Rightarrow> pyval \<Rightarrow> 'e ampl \<Rightarrow> 'e outcome" where
  "setOption E name v self =
     (if isinstance v IntT then forward E (SetIntOption name v) self
      else if isinstance v FloatT then forward E (SetIntOption name v) self
      else if isinstance v BoolT then forward E (SetBoolOption name v) self
      else if isinstance v BasestringT then forward E (SetOption name v) self
      else raise TypeError self)"

text \<open>
  \<^verbatim>\<open>getOption\<close>: a \<^verbatim>\<open>RuntimeError\<close> of the engine's lookup gives \<^verbatim>\<open>None\<close>; any other
  exception propagates. Then \<^verbatim>\<open>int(value)\<close>; on \<^verbatim>\<open>ValueError\<close>, \<^verbatim>\<open>float(value)\<close>; on
  \<^verbatim>\<open>ValueError\<close> again, the string itself.
\<close>

definition reinterpret :: "int \<Rightarrow> string \<Rightarrow> pyexc + pyval" where
  "reinterpret maxint v =
     (case py_int maxint v of
        Inr i \<Rightarrow> Inr i
      | Inl x \<Rightarrow>
          if catches ValueError x
          then (case py_float v of
                  Inr f \<Rightarrow> Inr f
                | Inl y \<Rightarrow> if catches ValueError y then Inr (PyStr v) else Inl y)
          else Inl x)"

definition getOption :: "int \<Rightarrow> 'e engine \<Rightarrow> string \<Rightarrow> 'e ampl \<Rightarrow> 'e outcome" where
  "getOption maxint E name self =
     (case option_value E name (impl self) of
        (Inl x, e') \<Rightarrow>
          if catches RuntimeError x then (Inr PyNone, [GetOption name], self\<lparr>impl := e'\<rparr>)
          else (Inl x, [GetOption name], self\<lparr>impl := e'\<rparr>)
      | (Inr v, e') \<Rightarrow> (reinterpret maxint v, [GetOption name], self\<lparr>impl := e'\<rparr>))"

definition read :: "'e engine \<Rightarrow> string \<Rightarrow> 'e ampl \<Rightarrow> 'e outcome" where
  "read E fileName self = discard (forward E (Read fileName) self)"

definition readData :: "'e engine \<Rightarrow> string \<Rightarrow> 'e ampl \<Rightarrow> 'e outcome" where
  "readData E fileName self = discard (forward E (ReadData fileName) self)"

definition getValue :: "'e engine \<Rightarrow> string \<Rightarrow> 'e ampl \<Rightarrow> 'e outcome" where
  "getValue E scalarExpression self = forward E (GetValue scalarExpression) self"

text \<open>
  \<^verbatim>\<open>setData\<close> reads \<^verbatim>\<open>dataframe._impl\<close>: of the values of the model only a \<open>DataFrame\<close> has
  that attribute.
\<close>

definition setData :: "'e engine \<Rightarrow> pyval \<Rightarrow> 'e ampl \<Rightarrow> 'e outcome" where
  "setData E dataframe self =
     (case dataframe of
        DataFrame h \<Rightarrow> discard (forward E (SetData h) self)
      | _ \<Rightarrow> raise AttributeError self)"

definition display :: "string list \<Rightarrow> 'e ampl \<Rightarrow> 'e outcome" where
  "display amplExpressions self = raise NotImplementedError self"

text \<open>The handler is stored in the object before the engine is called.\<close>

definition setOutputHandler :: "'e engine \<Rightarrow> pyval \<Rightarrow> 'e ampl \<Rightarrow> 'e outcome" where
  "setOutputHandler E h self =
     discard (forward E (SetOutputHandler h) (self\<lparr>outputhandler := h\<rparr>))"

definition setErrorHandler :: "'e engine \<Rightarrow> pyval \<Rightarrow> 'e ampl \<Rightarrow> 'e outcome" where
  "setErrorHandler E h self =
     discard (forward E (SetErrorHandler h) (self\<lparr>errorhandler := h\<rparr>))"

definition getOutputHandler :: "'e engine \<Rightarrow> 'e ampl \<Rightarrow> 'e outcome" where
  "getOutputHandler E self =
     (case forward E GetOutputHandler self of
        (Inl x, cs, s) \<Rightarrow> (Inl x, cs, s)
      | (Inr h, cs, s) \<Rightarrow> (Inr h, cs, s\<lparr>outputhandler := h\<rparr>))"

definition getErrorHandler :: "'e engine \<Rightarrow> 'e ampl \<Rightarrow> 'e outcome" where
  "getErrorHandler E self =
     (case forward E GetErrorHandler self of
        (Inl x, cs, s) \<Rightarrow> (Inl x, cs, s)
      | (Inr h, cs, s) \<Rightarrow> (Inr h, cs, s\<lparr>errorhandler := h\<rparr>))"

definition getVariables :: "'e engine \<Rightarrow> 'e ampl \<Rightarrow> 'e outcome" where
  "getVariables E self = wrap (MapEntities Variable) (forward E GetVariables self)"

definition getConstraints :: "'e engine \<Rightarrow> 'e ampl \<Rightarrow> 'e outcome" where
  "getConstraints E self = wrap (MapEntities Constraint) (forward E GetConstraints self)"

definition getObjectives :: "'e engine \<Rightarrow> 'e ampl \<Rightarrow> 'e outcome" where
  "getObjectives E self = wrap (MapEntities Objective) (forward E GetObjectives self)"

definition getSets :: "'e engine \<Rightarrow> 'e ampl \<Rightarrow> 'e outcome" where
  "getSets E self = wrap (MapEntities Set) (forward E GetSets self)"

definition getParameters :: "'e engine \<Rightarrow> 'e ampl \<Rightarrow> 'e outcome" where
  "getParameters E self = wrap (MapEntities Parameter) (forward E GetParameters self)"

text \<open>The methods of the class with their arguments, and a call of any of them.\<close>

datatype invocation =
    M_getData "string list"
  | M_getEntity string
  | M_getVariable string | M_getConstraint string | M_getObjective string
  | M_getSet string | M_getParameter string
  | M_eval string
  | M_reset
  | M_close
  | M_isRunning
  | M_isBusy
  | M_solve
  | M_readAsync string pyval
  | M_readDataAsync string pyval
  | M_evalAsync string pyval
  | M_solveAsync pyval
  | M_interrupt
  | M_cd pyval
  | M_setOption string pyval
  | M_getOption string
  | M_read string
  | M_readData string
  | M_getValue string
  | M_setData pyval
  | M_display "string list"
  | M_setOutputHandler pyval
  | M_setErrorHandler pyval
  | M_getOutputHandler
  | M_getErrorHandler
  | M_getVariables | M_getConstraints | M_getObjectives | M_getSets | M_getParameters

fun invoke :: "int \<Rightarrow> 'e engine \<Rightarrow> invocation \<Rightarrow> 'e ampl \<Rightarrow> 'e outcome" where
  "invoke mx E (M_getData ss) = getData E ss"
| "invoke mx E (M_getEntity n) = getEntity n"
| "invoke mx E (M_getVariable n) = getVariable E n"
| "invoke mx E (M_getConstraint n) = getConstraint E n"
| "invoke mx E (M_getObjective n) = getObjective E n"
| "invoke mx E (M_getSet n) = getSet E n"
| "invoke mx E (M_getParameter n) = getParameter E n"
| "invoke mx E (M_eval s) = eval E s"
| "invoke mx E M_reset = reset E"
| "invoke mx E M_close = close E"
| "invoke mx E M_isRunning = isRunning E"
| "invoke mx E M_isBusy = isBusy E"
| "invoke mx E M_solve = solve E"
| "invoke mx E (M_readAsync f cb) = readAsync f cb"
| "invoke mx E (M_readDataAsync f cb) = readDataAsync f cb"
| "invoke mx E (M_evalAsync s cb) = evalAsync s cb"
| "invoke mx E (M_solveAsync cb) = solveAsync cb"
| "invoke mx E M_interrupt = interrupt"
| "invoke mx E (M_cd p) = cd E p"
| "invoke mx E (M_setOption n v) = setOption E n v"
| "invoke mx E (M_getOption n) = getOption mx E n"
| "invoke mx E (M_read f) = read E f"
| "invoke mx E (M_readData f) = readData E f"
| "invoke mx E (M_getValue x) = getValue E x"
| "invoke mx E (M_setData d) = setData E d"
| "invoke mx E (M_display xs) = display xs"
| "invoke mx E (M_setOutputHandler h) = setOutputHandler E h"
| "invoke mx E (M_setErrorHandler h) = setErrorHandler E h"
| "invoke mx E M_getOutputHandler = getOutputHandler E"
| "invoke mx E M_getErrorHandler = getErrorHandler E"
| "invoke mx E M_getVariables = getVariables E"
| "invoke mx E M_getConstraints = getConstraints E"
| "invoke mx E M_getObjectives = getObjectives E"
| "invoke mx E M_getSets = getSets E"
| "invoke mx E M_getParameters = getParameters E"

section \<open>An engine after the spec\<close>

text \<open>
  Modelled from the spec: the native engine \<^verbatim>\<open>amplpython.AMPL\<close>
  behind \<^verbatim>\<open>self._impl\<close>, and with it the lazy collections of entities
  and the frames, are missing from the source files. The model follows the spec's data model
  (section 3), component design (section 4) and engine interface (section 6).

  An entity has a kind, the names of its index columns, its index tuples in the engine's
  order, and a value at each index tuple.
\<close>

record entity =
  ekind :: kind
  indexing :: "string list"
  keys :: "datum list list"
  value_at :: "datum list \<Rightarrow> datum"

text \<open>
  Modelled from the spec: what the interpreter owns: the declared entities by name, in
  declaration order, and the options, each stored as a string.
\<close>

record model =
  entities :: "(string \<times> entity) list"
  options :: "(string \<times> string) list"

text \<open>
  Modelled from the spec: the spec's LazyEntityCollection of a kind: its cache from names to
  references and its \<open>populated\<close> flag.
\<close>

record lazy_collection =
  cache :: "(string \<times> handle) list"
  populated :: bool

text \<open>
  Modelled from the spec: the engine's state: whether it runs (the lifecycle is Running,
  then Closed), the interpreter's model, one lazy collection per kind, the two handlers and
  the working directory. The facade of the source has no field for the collections (the spec
  lists them under SessionFacade): they live behind \<^verbatim>\<open>self._impl\<close>.
\<close>

record engine_state =
  running :: bool
  model :: model
  collections :: "kind \<Rightarrow> lazy_collection"
  output_handler :: pyval
  error_handler :: pyval
  cwd :: pyval

text \<open>
  Modelled from the spec: the spec leaves parsing, evaluation and solving to the engine as
  an opaque collaborator: the interpreter is a parameter, which answers a call on a model
  with an exception or a value and the model afterwards.
\<close>

type_synonym interpreter = "ecall \<Rightarrow> model \<Rightarrow> (pyexc + pyval) \<times> model"

text \<open>
  Modelled from the spec: \<^verbatim>\<open>invalidate()\<close>: "clears cache and resets
  populated = false".
\<close>

definition invalidate :: "lazy_collection \<Rightarrow> lazy_collection" where
  "invalidate c = c\<lparr>cache := [], populated := False\<rparr>"

text \<open>Modelled from the spec: the invalidation of all five collections.\<close>

definition invalidate_all :: "engine_state \<Rightarrow> engine_state" where
  "invalidate_all st = st\<lparr>collections := (\<lambda>k. invalidate (collections st k))\<rparr>"

text \<open>
  Modelled from the spec: the full fetch of a kind: "populating the entire cache for that
  kind", in the order of the engine.
\<close>

definition fetch :: "kind \<Rightarrow> model \<Rightarrow> (string \<times> handle) list" where
  "fetch k m =
     map (\<lambda>(n, e). (n, EntityRef k n)) (filter (\<lambda>(n, e). ekind e = k) (entities m))"

text \<open>
  Modelled from the spec: the first access to an unpopulated collection fetches it; a
  populated one is left as it is.
\<close>

definition populate :: "kind \<Rightarrow> engine_state \<Rightarrow> engine_state" where
  "populate k st =
     (if populated (collections st k) then st
      else st\<lparr>collections :=
                (collections st)(k := \<lparr>cache = fetch k (model st), populated = True\<rparr>)\<rparr>)"

text \<open>
  Modelled from the spec: \<^verbatim>\<open>get(name)\<close> of the collection of a kind;
  absent names fail with NotFoundError.
\<close>

definition get_entity ::
  "kind \<Rightarrow> string \<Rightarrow> engine_state \<Rightarrow> (pyexc + pyval) \<times> engine_state" where
  "get_entity k name st =
     (if \<not> running st then (Inl EngineNotRunningError, st)
      else (case map_of (cache (collections (populate k st) k)) name of
              None \<Rightarrow> (Inl NotFoundError, populate k st)
            | Some h \<Rightarrow> (Inr (PyHandle h), populate k st)))"

text \<open>
  Modelled from the spec: \<^verbatim>\<open>iterate()\<close>: the names of a kind in the
  engine's order.
\<close>

definition list_entities ::
  "kind \<Rightarrow> engine_state \<Rightarrow> (pyexc + pyval) \<times> engine_state" where
  "list_entities k st =
     (if \<not> running st then (Inl EngineNotRunningError, st)
      else (Inr (PyHandle (EntityMapRef k (map fst (cache (collections (populate k st) k))))),
            populate k st))"

text \<open>
  Modelled from the spec: a declaration-mutating call (statements, a model or script file, a
  data file): every collection is invalidated, since invalidation is keyed to "any call that
  could have changed declarations"; a closed engine then fails, a running one lets the
  interpreter work on the model.
\<close>

definition mutate ::
  "interpreter \<Rightarrow> ecall \<Rightarrow> engine_state \<Rightarrow> (pyexc + pyval) \<times> engine_state" where
  "mutate I c st =
     (if \<not> running st then (Inl EngineNotRunningError, invalidate_all st)
      else (case I c (model st) of (r, m) \<Rightarrow> (r, (invalidate_all st)\<lparr>model := m\<rparr>)))"

text \<open>
  Modelled from the spec: a call that changes values or options and no declaration (solve,
  an option setter): the interpreter works on the model and the collections stay.
\<close>

definition operate ::
  "interpreter \<Rightarrow> ecall \<Rightarrow> engine_state \<Rightarrow> (pyexc + pyval) \<times> engine_state" where
  "operate I c st =
     (if \<not> running st then (Inl EngineNotRunningError, st)
      else (case I c (model st) of (r, m) \<Rightarrow> (r, st\<lparr>model := m\<rparr>)))"

text \<open>
  Modelled from the spec: a read-only query (a scalar value, a display of expressions): the
  model stays.
\<close>

definition query ::
  "interpreter \<Rightarrow> ecall \<Rightarrow> engine_state \<Rightarrow> (pyexc + pyval) \<times> engine_state" where
  "query I c st =
     (if \<not> running st then (Inl EngineNotRunningError, st)
      else (fst (I c (model st)), st))"

text \<open>
  Modelled from the spec: \<^verbatim>\<open>queryToFrame\<close> for one entity: the frame
  of its current data, the index columns first and the column of the entity last, one row
  for each index tuple.
\<close>

definition frame_of :: "string \<Rightarrow> entity \<Rightarrow> frame" where
  "frame_of name e =
     \<lparr>columnNames = indexing e @ [name], rows = map (\<lambda>i. (i, value_at e i)) (keys e)\<rparr>"

text \<open>
  Modelled from the spec: the engine's \<^verbatim>\<open>getData\<close>. A single statement that names a
  declared entity gives the frame of that entity; any other query is an expression for
  the interpreter.
\<close>

definition query_frame ::
  "interpreter \<Rightarrow> string list \<Rightarrow> nat \<Rightarrow> engine_state \<Rightarrow> (pyexc + pyval) \<times> engine_state"
  where
  "query_frame I statements n st =
     (if \<not> running st then (Inl EngineNotRunningError, st)
      else (case statements of
              [name] \<Rightarrow>
                (case map_of (entities (model st)) name of
                   Some e \<Rightarrow> (Inr (PyHandle (DataFrameRef (frame_of name e))), st)
                 | None \<Rightarrow> query I (GetData statements n) st)
            | _ \<Rightarrow> query I (GetData statements n) st))"

text \<open>Modelled from the spec: the rows of a frame assigned in order, each to its index tuple.\<close>

definition assign_rows ::
  "(datum list \<times> datum) list \<Rightarrow> (datum list \<Rightarrow> datum) \<Rightarrow> (datum list \<Rightarrow> datum)" where
  "assign_rows rs f = fold (\<lambda>(i, v) g. g(i := v)) rs f"

text \<open>
  Modelled from the spec: a row fits when its index tuple has the arity of the frame's
  index columns and is an index tuple of the entity.
\<close>

definition row_fits :: "frame \<Rightarrow> entity \<Rightarrow> datum list \<times> datum \<Rightarrow> bool" where
  "row_fits f e r = (Suc (length (fst r)) = length (columnNames f) \<and> fst r \<in> set (keys e))"

text \<open>
  Modelled from the spec: \<^verbatim>\<open>assignFrame\<close>, the engine's \<^verbatim>\<open>setData\<close>. The value column
  names the entity (UnknownColumnError when no such entity is declared), every row must
  fit (IndexMismatchError otherwise), and then the rows are assigned.
\<close>

definition assign_frame :: "pyval \<Rightarrow> engine_state \<Rightarrow> (pyexc + pyval) \<times> engine_state" where
  "assign_frame h st =
     (if \<not> running st then (Inl EngineNotRunningError, st)
      else (case h of
              PyHandle (DataFrameRef f) \<Rightarrow>
                (if columnNames f = [] then (Inl UnknownColumnError, st)
                 else (case map_of (entities (model st)) (last (columnNames f)) of
                         None \<Rightarrow> (Inl UnknownColumnError, st)
                       | Some e \<Rightarrow>
                           if list_all (row_fits f e) (rows f)
                           then (Inr PyNone,
                                 st\<lparr>model := (model st)\<lparr>entities :=
                                   AList.update (last (columnNames f))
                                     (e\<lparr>value_at := assign_rows (rows f) (value_at e)\<rparr>)
                                     (entities (model st))\<rparr>\<rparr>)
                           else (Inl IndexMismatchError, st)))
            | _ \<Rightarrow> (Inl TypeError, st)))"

text \<open>
  Modelled from the spec: the stored string of an option. A closed engine fails with
  EngineNotRunningError; an option that does not exist fails with a
  \<^verbatim>\<open>RuntimeError\<close> (the example
  \<^verbatim>\<open>optionsexample.py\<close> reads a missing option and gets
  \<^verbatim>\<open>None\<close> from \<^verbatim>\<open>getOption\<close>).
\<close>

definition spec_option_value ::
  "string \<Rightarrow> engine_state \<Rightarrow> (pyexc + string) \<times> engine_state" where
  "spec_option_value name st =
     (if \<not> running st then (Inl EngineNotRunningError, st)
      else (case map_of (options (model st)) name of
              None \<Rightarrow> (Inl RuntimeError, st)
            | Some v \<Rightarrow> (Inr v, st)))"

text \<open>Modelled from the spec: a call that a closed engine refuses.\<close>

definition guarded ::
  "engine_state \<Rightarrow> (pyexc + pyval) \<times> engine_state \<Rightarrow> (pyexc + pyval) \<times> engine_state" where
  "guarded st r = (if \<not> running st then (Inl EngineNotRunningError, st) else r)"

text \<open>
  Modelled from the spec: the calls. Closing is idempotent and one-way;
  \<^verbatim>\<open>isRunning\<close> and \<^verbatim>\<open>isBusy\<close> report the
  status (the engine is synchronous: it is never busy between calls); every other call on a
  closed engine fails with EngineNotRunningError.
\<close>

fun spec_call ::
  "interpreter \<Rightarrow> ecall \<Rightarrow> engine_state \<Rightarrow> (pyexc + pyval) \<times> engine_state" where
  "spec_call I Close st = (Inr PyNone, st\<lparr>running := False\<rparr>)"
| "spec_call I IsRunning st = (Inr (PyBool (running st)), st)"
| "spec_call I IsBusy st = (Inr (PyBool False), st)"
| "spec_call I (Eval s) st = mutate I (Eval s) st"
| "spec_call I (Read f) st = mutate I (Read f) st"
| "spec_call I (ReadData f) st = mutate I (ReadData f) st"
| "spec_call I Solve st = operate I Solve st"
| "spec_call I (SetIntOption n v) st = operate I (SetIntOption n v) st"
| "spec_call I (SetBoolOption n v) st = operate I (SetBoolOption n v) st"
| "spec_call I (SetOption n v) st = operate I (SetOption n v) st"
| "spec_call I (GetOption n) st =
     (case spec_option_value n st of (r, st') \<Rightarrow> (map_sum id PyStr r, st'))"
| "spec_call I (GetValue x) st = query I (GetValue x) st"
| "spec_call I (GetData ss n) st = query_frame I ss n st"
| "spec_call I (SetData h) st = assign_frame h st"
| "spec_call I (GetVariable n) st = get_entity Variable n st"
| "spec_call I (GetConstraint n) st = get_entity Constraint n st"
| "spec_call I (GetObjective n) st = get_entity Objective n st"
| "spec_call I (GetSet n) st = get_entity Set n st"
| "spec_call I (GetParameter n) st = get_entity Parameter n st"
| "spec_call I GetVariables st = list_entities Variable st"
| "spec_call I GetConstraints st = list_entities Constraint st"
| "spec_call I GetObjectives st = list_entities Objective st"
| "spec_call I GetSets st = list_entities Set st"
| "spec_call I GetParameters st = list_entities Parameter st"
| "spec_call I Cd st = guarded st (Inr (cwd st), st)"
| "spec_call I (CdTo p) st = guarded st (Inr p, st\<lparr>cwd := p\<rparr>)"
| "spec_call I (SetOutputHandler h) st = guarded st (Inr PyNone, st\<lparr>output_handler := h\<rparr>)"
| "spec_call I (SetErrorHandler h) st = guarded st (Inr PyNone, st\<lparr>error_handler := h\<rparr>)"
| "spec_call I GetOutputHandler st = guarded st (Inr (output_handler st), st)"
| "spec_call I GetErrorHandler st = guarded st (Inr (error_handler st), st)"

text \<open>Modelled from the spec: the engine, over an interpreter.\<close>

definition spec_engine :: "interpreter \<Rightarrow> engine_state engine" where
  "spec_engine I = \<lparr>call = spec_call I, option_value = spec_option_value\<rparr>"

text \<open>
  Modelled from the spec: the state "Empty" of every collection: the flag is off, the cache
  is empty, and the next access fetches the names from the interpreter's model.
\<close>

definition unpopulated :: "engine_state \<Rightarrow> bool" where
  "unpopulated st =
     (\<forall>k. \<not> populated (collections st k) \<and> cache (collections st k) = []
          \<and> cache (collections (populate k st) k) = fetch k (model st))"

section \<open>A concrete session and a client\<close>

text \<open>
  An interpreter that accepts every call and changes nothing, and a running session with
  one parameter and three options, for the closed instances of the theorems.
\<close>

definition example_interpreter :: interpreter where
  "example_interpreter c m = (Inr PyNone, m)"

definition example_cost :: entity where
  "example_cost =
     \<lparr>ekind = Parameter, indexing = [''ORIG''],
      keys = [[Str ''GARY''], [Str ''CLEV'']],
      value_at =
        (\<lambda>i. if i = [Str ''GARY''] then Num (Finite False 39) else Num (Finite False 27))\<rparr>"

definition example_session :: "engine_state ampl" where
  "example_session =
     \<lparr>impl =
        \<lparr>running = True,
         model = \<lparr>entities = [(''cost'', example_cost)],
                  options = [(''solver'', ''gurobi''), (''presolve'', ''10''),
                             (''presolve_eps'', ''1.5'')]\<rparr>,
         collections = (\<lambda>k. \<lparr>cache = [], populated = False\<rparr>),
         output_handler = PyNone, error_handler = PyNone, cwd = PyStr ''/''\<rparr>,
      outputhandler = PyNone, errorhandler = PyNone\<rparr>"

text \<open>The object after a method call.\<close>

definition after :: "'e outcome \<Rightarrow> 'e ampl" where
  "after out = snd (snd out)"

text \<open>A client that calls methods one after the other, going on after an exception.\<close>

definition calls :: "int \<Rightarrow> 'e engine \<Rightarrow> invocation list \<Rightarrow> 'e ampl \<Rightarrow> 'e ampl" where
  "calls mx E ms self = fold (\<lambda>m s. after (invoke mx E m s)) ms self"

section \<open>Option dispatch\<close>

text \<open>
  Claim C1 says that \<^verbatim>\<open>setOption(name, v)\<close> with a floating-point \<open>v\<close> goes through the
  engine's floating-point setter. The source's \<^verbatim>\<open>float\<close> branch calls \<^verbatim>\<open>setIntOption\<close>:
  for every engine, name and float the one engine call made is
  \<open>SetIntOption name (PyFloat f)\<close>, and the outcome is that call's.
\<close>

theorem setOption_float_calls_setIntOption:
  "setOption E name (PyFloat f) self = forward E (SetIntOption name (PyFloat f)) self
   \<and> fst (snd (setOption E name (PyFloat f) self)) = [SetIntOption name (PyFloat f)]"
  by (simp add: setOption_def isinstance_def forward_def split: prod.split)

text \<open>
  Claim C2 says that \<^verbatim>\<open>setOption(name, v)\<close> with a boolean \<open>v\<close> goes through
  \<^verbatim>\<open>setBoolOption\<close>. In Python \<^verbatim>\<open>bool\<close> derives from \<^verbatim>\<open>int\<close>, so the first test
  \<^verbatim>\<open>isinstance(value, int)\<close> already holds for \<^verbatim>\<open>True\<close> and \<^verbatim>\<open>False\<close>: the one engine call
  made is \<open>SetIntOption name (PyBool b)\<close>, and the \<^verbatim>\<open>bool\<close> branch is never reached.
\<close>

theorem setOption_bool_calls_setIntOption:
  "setOption E name (PyBool b) self = forward E (SetIntOption name (PyBool b)) self
   \<and> fst (snd (setOption E name (PyBool b) self)) = [SetIntOption name (PyBool b)]"
  by (simp add: setOption_def isinstance_def forward_def split: prod.split)

text \<open>
  Claim C7: for every option name and every value whose type is not integer,
  floating-point, boolean or string, \<^verbatim>\<open>setOption\<close> raises \<^verbatim>\<open>TypeError\<close> (the spec's
  UnsupportedOptionTypeError), makes no engine call and leaves the session as it was. The
  theorem holds for every class of the model other than \<^verbatim>\<open>int\<close>, \<^verbatim>\<open>bool\<close>, \<^verbatim>\<open>float\<close>,
  \<^verbatim>\<open>str\<close> and \<^verbatim>\<open>unicode\<close>: for \<^verbatim>\<open>None\<close>, lists, plain objects, proxies and the
  wrapper classes (and for a Python 2 \<^verbatim>\<open>long\<close>, which is not an instance of \<^verbatim>\<open>int\<close>).
\<close>

theorem setOption_unsupported_type:
  "type_of v \<notin> {IntT, BoolT, FloatT, StrT, UnicodeT} \<Longrightarrow>
   setOption E name v self = (Inl TypeError, [], self)"
  by (cases v) (simp_all add: setOption_def isinstance_def raise_def)

theorem setOption_unsupported_type_witness:
  "type_of PyNone \<notin> {IntT, BoolT, FloatT, StrT, UnicodeT}
   \<and> setOption (spec_engine example_interpreter) ''solver'' PyNone example_session
       = (Inl TypeError, [], example_session)"
  using setOption_unsupported_type
    [of PyNone "spec_engine example_interpreter" "''solver''" example_session]
  by simp

section \<open>Unimplemented operations\<close>

text \<open>
  Claim C8: for every input, each of \<^verbatim>\<open>evalAsync\<close>, \<^verbatim>\<open>readAsync\<close>, \<^verbatim>\<open>readDataAsync\<close>,
  \<^verbatim>\<open>solveAsync\<close>, \<^verbatim>\<open>interrupt\<close>, \<^verbatim>\<open>display\<close> and \<^verbatim>\<open>getEntity\<close> raises
  \<^verbatim>\<open>NotImplementedError\<close>, makes no engine call and leaves the session as it was.
\<close>

theorem stubs_raise_NotImplementedError:
  "evalAsync s cb self = (Inl NotImplementedError, [], self)
   \<and> readAsync f cb self = (Inl NotImplementedError, [], self)
   \<and> readDataAsync f cb self = (Inl NotImplementedError, [], self)
   \<and> solveAsync cb self = (Inl NotImplementedError, [], self)
   \<and> interrupt self = (Inl NotImplementedError, [], self)
   \<and> display xs self = (Inl NotImplementedError, [], self)
   \<and> getEntity n self = (Inl NotImplementedError, [], self)"
  by (simp add: evalAsync_def readAsync_def readDataAsync_def solveAsync_def
      interrupt_def display_def getEntity_def raise_def)

section \<open>Status queries\<close>

text \<open>
  Claim C9: \<^verbatim>\<open>isRunning()\<close> and \<^verbatim>\<open>isBusy()\<close> forward the query to the engine and drop
  its answer: whatever value the engine answers, the method makes that one engine call
  and returns \<^verbatim>\<open>None\<close>.
\<close>

theorem isRunning_isBusy_return_None:
  "(call E IsRunning (impl self) = (Inr v, e) \<longrightarrow>
      isRunning E self = (Inr PyNone, [IsRunning], self\<lparr>impl := e\<rparr>))
   \<and> (call E IsBusy (impl self) = (Inr w, e') \<longrightarrow>
      isBusy E self = (Inr PyNone, [IsBusy], self\<lparr>impl := e'\<rparr>))"
  by (simp add: isRunning_def isBusy_def discard_def wrap_def forward_def)

theorem isRunning_isBusy_return_None_witness:
  "call (spec_engine example_interpreter) IsRunning (impl example_session)
     = (Inr (PyBool True), impl example_session)
   \<and> isRunning (spec_engine example_interpreter) example_session
       = (Inr PyNone, [IsRunning], example_session)
   \<and> call (spec_engine example_interpreter) IsBusy (impl example_session)
       = (Inr (PyBool False), impl example_session)
   \<and> isBusy (spec_engine example_interpreter) example_session
       = (Inr PyNone, [IsBusy], example_session)"
  using isRunning_isBusy_return_None
    [of "spec_engine example_interpreter" example_session "PyBool True"
        "impl example_session" "PyBool False" "impl example_session"]
  by (simp add: spec_engine_def example_session_def)

section \<open>Reading an option back\<close>

lemmas literal_defs = int_literal_def float_literal_def decimal_literal_def exponent_part_def
  scale10_def strip_def isspace_def all_digits_def isdigit_def digits_value_def digit_value_def

lemma reinterpret_cascade:
  "reinterpret mx v =
     (case int_literal v of
        Some i \<Rightarrow> Inr (int_or_long mx i)
      | None \<Rightarrow> (case float_literal v of Some f \<Rightarrow> Inr (PyFloat f) | None \<Rightarrow> Inr (PyStr v)))"
  by (simp add: reinterpret_def py_int_def py_float_def split: option.split)

lemma int_literal_10: "int_literal ''10'' = Some 10"
  by (simp add: literal_defs)

lemma int_literal_1_5: "int_literal ''1.5'' = None"
  by (simp add: literal_defs)

lemma float_literal_1_5: "float_literal ''1.5'' = Some (Finite False (3 / 2))"
  by (simp add: literal_defs)

lemma int_literal_gurobi: "int_literal ''gurobi'' = None"
  by (simp add: literal_defs)

lemma float_literal_gurobi: "float_literal ''gurobi'' = None"
  by (simp add: literal_defs)

lemma example_option_presolve:
  "option_value (spec_engine example_interpreter) ''presolve'' (impl example_session)
     = (Inr ''10'', impl example_session)"
  by (simp add: spec_engine_def spec_option_value_def example_session_def)

lemma example_option_presolve_eps:
  "option_value (spec_engine example_interpreter) ''presolve_eps'' (impl example_session)
     = (Inr ''1.5'', impl example_session)"
  by (simp add: spec_engine_def spec_option_value_def example_session_def)

lemma example_option_solver:
  "option_value (spec_engine example_interpreter) ''solver'' (impl example_session)
     = (Inr ''gurobi'', impl example_session)"
  by (simp add: spec_engine_def spec_option_value_def example_session_def)

lemma example_option_missing:
  "option_value (spec_engine example_interpreter) ''s_o_l_v_e_r'' (impl example_session)
     = (Inl RuntimeError, impl example_session)"
  by (simp add: spec_engine_def spec_option_value_def example_session_def)

text \<open>
  Claim C4: whatever string \<open>v\<close> the engine stores for the option, \<^verbatim>\<open>getOption(name)\<close>
  returns the integer \<open>v\<close> denotes if it is an integer literal; otherwise the float it
  denotes if it is a float literal; otherwise \<open>v\<close> itself, unchanged. It makes the one
  engine call. In particular a stored \<^verbatim>\<open>"10"\<close> comes back as the integer 10 (an \<^verbatim>\<open>int\<close>
  on every platform whose \<^verbatim>\<open>sys.maxint\<close> is at least 10), \<^verbatim>\<open>"1.5"\<close> as the float 1.5
  and \<^verbatim>\<open>"gurobi"\<close> as the string.
\<close>

theorem getOption_reinterprets_stored_string:
  "option_value E name (impl self) = (Inr v, e) \<Longrightarrow>
   getOption mx E name self =
     ((case int_literal v of
         Some i \<Rightarrow> Inr (int_or_long mx i)
       | None \<Rightarrow> (case float_literal v of Some f \<Rightarrow> Inr (PyFloat f) | None \<Rightarrow> Inr (PyStr v))),
      [GetOption name], self\<lparr>impl := e\<rparr>)
   \<and> (v = ''10'' \<and> 10 \<le> mx \<longrightarrow> fst (getOption mx E name self) = Inr (PyInt 10))
   \<and> (v = ''1.5'' \<longrightarrow> fst (getOption mx E name self) = Inr (PyFloat (Finite False (3 / 2))))
   \<and> (v = ''gurobi'' \<longrightarrow> fst (getOption mx E name self) = Inr (PyStr ''gurobi''))"
proof -
  assume a: "option_value E name (impl self) = (Inr v, e)"
  have g: "getOption mx E name self = (reinterpret mx v, [GetOption name], self\<lparr>impl := e\<rparr>)"
    using a by (simp add: getOption_def)
  show ?thesis
    unfolding g reinterpret_cascade
    by (auto simp: int_literal_10 int_literal_1_5 float_literal_1_5 int_literal_gurobi
        float_literal_gurobi int_or_long_def)
qed

theorem getOption_reinterprets_stored_string_witness:
  "getOption 9223372036854775807 (spec_engine example_interpreter) ''presolve'' example_session
     = (Inr (PyInt 10), [GetOption ''presolve''], example_session)
   \<and> getOption 9223372036854775807 (spec_engine example_interpreter) ''presolve_eps''
       example_session
     = (Inr (PyFloat (Finite False (3 / 2))), [GetOption ''presolve_eps''], example_session)
   \<and> getOption 9223372036854775807 (spec_engine example_interpreter) ''solver'' example_session
     = (Inr (PyStr ''gurobi''), [GetOption ''solver''], example_session)"
  using getOption_reinterprets_stored_string
      [OF example_option_presolve, of 9223372036854775807]
    getOption_reinterprets_stored_string
      [OF example_option_presolve_eps, of 9223372036854775807]
    getOption_reinterprets_stored_string
      [OF example_option_solver, of 9223372036854775807]
  by (simp add: int_literal_10 int_literal_1_5 float_literal_1_5 int_literal_gurobi
        float_literal_gurobi int_or_long_def)

text \<open>
  Claim C10: whenever the engine's option lookup fails with a \<^verbatim>\<open>RuntimeError\<close> (or an
  exception derived from it), \<^verbatim>\<open>getOption(name)\<close> returns \<^verbatim>\<open>None\<close> and raises nothing. It
  makes the one engine call, and the session is the one the failed lookup left: the
  facade changes no field of its own, so with an engine whose failed lookup changes
  nothing the session is unchanged, as in the closed instance below (the missing option
  of \<^verbatim>\<open>optionsexample.py\<close>).
\<close>

theorem getOption_lookup_failure_returns_None:
  "option_value E name (impl self) = (Inl x, e) \<Longrightarrow> catches RuntimeError x \<Longrightarrow>
   getOption mx E name self = (Inr PyNone, [GetOption name], self\<lparr>impl := e\<rparr>)"
  by (simp add: getOption_def)

theorem getOption_lookup_failure_returns_None_witness:
  "getOption 9223372036854775807 (spec_engine example_interpreter) ''s_o_l_v_e_r''
     example_session
     = (Inr PyNone, [GetOption ''s_o_l_v_e_r''], example_session)"
  using getOption_lookup_failure_returns_None
      [OF example_option_missing, of 9223372036854775807]
  by simp

section \<open>What the facade does to the engine's state\<close>

lemma after_forward: "impl (after (forward E c self)) = snd (call E c (impl self))"
  by (simp add: after_def forward_def split: prod.split)

lemma after_discard: "after (discard out) = after out"
  by (simp add: after_def discard_def wrap_def split: prod.split sum.split)

lemma after_wrap: "after (wrap f out) = after out"
  by (simp add: after_def wrap_def split: prod.split sum.split)

lemma after_raise: "after (raise x self) = self"
  by (simp add: after_def raise_def)

lemma after_getOption:
  "impl (after (getOption mx E n self)) = snd (option_value E n (impl self))"
  by (simp add: after_def getOption_def split: prod.split sum.split)

lemma after_getOutputHandler:
  "impl (after (getOutputHandler E self)) = snd (call E GetOutputHandler (impl self))"
  by (simp add: getOutputHandler_def after_def forward_def split: prod.split sum.split)

lemma after_getErrorHandler:
  "impl (after (getErrorHandler E self)) = snd (call E GetErrorHandler (impl self))"
  by (simp add: getErrorHandler_def after_def forward_def split: prod.split sum.split)

lemma fst_wrap_Inl: "fst out = Inl x \<Longrightarrow> fst (wrap f out) = Inl x"
  by (cases out) (simp add: wrap_def)

lemma fst_discard_Inl: "fst out = Inl x \<Longrightarrow> fst (discard out) = Inl x"
  by (simp add: discard_def fst_wrap_Inl)

text \<open>
  The facade reaches the engine's state through engine calls only: a property of that
  state which every engine call keeps is kept by every method.
\<close>

lemma invoke_engine_invariant:
  assumes c: "\<And>c st. P st \<Longrightarrow> P (snd (call E c st))"
    and o: "\<And>n st. P st \<Longrightarrow> P (snd (option_value E n st))"
    and p: "P (impl self)"
  shows "P (impl (after (invoke mx E m self)))"
proof (cases m)
  case (M_setOption n v)
  then show ?thesis using c p
    by (simp add: setOption_def after_forward after_raise)
next
  case (M_setData d)
  then show ?thesis using c p
    by (cases d) (simp_all add: setData_def after_discard after_forward after_raise)
next
  case (M_getOption n)
  then show ?thesis using o p by (simp add: after_getOption)
next
  case (M_cd q)
  then show ?thesis using c p by (simp add: cd_def after_forward)
next
  case M_getOutputHandler
  then show ?thesis using c p by (simp add: after_getOutputHandler)
next
  case M_getErrorHandler
  then show ?thesis using c p by (simp add: after_getErrorHandler)
qed (use c p in \<open>simp_all add: getData_def getEntity_def getVariable_def getConstraint_def
    getObjective_def getSet_def getParameter_def eval_def reset_def close_def isRunning_def
    isBusy_def solve_def readAsync_def readDataAsync_def evalAsync_def solveAsync_def
    interrupt_def read_def readData_def getValue_def display_def setOutputHandler_def
    setErrorHandler_def getVariables_def getConstraints_def getObjectives_def getSets_def
    getParameters_def after_discard after_wrap after_forward after_raise\<close>)

section \<open>The engine after the spec: invalidation\<close>

lemma call_spec_engine: "call (spec_engine I) = spec_call I"
  by (simp add: spec_engine_def)

lemma option_value_spec_engine: "option_value (spec_engine I) = spec_option_value"
  by (simp add: spec_engine_def)

lemma spec_option_value_state: "snd (spec_option_value n st) = st"
  by (simp add: spec_option_value_def split: option.split)

lemma mutate_unpopulated: "unpopulated (snd (mutate I c st))"
  by (simp add: unpopulated_def mutate_def populate_def invalidate_all_def invalidate_def
      split: prod.split)

lemma operate_collections: "collections (snd (operate I c st)) = collections st"
  by (simp add: operate_def split: prod.split)

lemma query_collections: "collections (snd (query I c st)) = collections st"
  by (simp add: query_def)

lemma assign_frame_collections: "collections (snd (assign_frame h st)) = collections st"
  by (simp add: assign_frame_def split: pyval.split handle.split option.split)

text \<open>
  Claim C3, against the engine modelled from the spec. After \<^verbatim>\<open>eval\<close>, \<^verbatim>\<open>read\<close>,
  \<^verbatim>\<open>readData\<close> and \<^verbatim>\<open>reset\<close>, whatever their outcome, every collection is unpopulated:
  its flag is off, its cache is empty, and the next access fetches it anew. After
  \<^verbatim>\<open>setOption\<close>, \<^verbatim>\<open>getOption\<close>, \<^verbatim>\<open>setData\<close>, \<^verbatim>\<open>solve\<close> and \<^verbatim>\<open>getValue\<close>, every
  collection is as it was, its flag and its cache.
\<close>

theorem mutating_operations_invalidate_collections:
  "unpopulated (impl (after (eval (spec_engine I) s self)))
   \<and> unpopulated (impl (after (read (spec_engine I) f self)))
   \<and> unpopulated (impl (after (readData (spec_engine I) f self)))
   \<and> unpopulated (impl (after (reset (spec_engine I) self)))
   \<and> collections (impl (after (setOption (spec_engine I) n v self))) = collections (impl self)
   \<and> collections (impl (after (getOption mx (spec_engine I) n self))) = collections (impl self)
   \<and> collections (impl (after (setData (spec_engine I) d self))) = collections (impl self)
   \<and> collections (impl (after (solve (spec_engine I) self))) = collections (impl self)
   \<and> collections (impl (after (getValue (spec_engine I) x self))) = collections (impl self)"
proof -
  have e: "\<And>s. unpopulated (impl (after (eval (spec_engine I) s self)))"
    by (simp add: eval_def after_discard after_forward call_spec_engine mutate_unpopulated)
  have r: "unpopulated (impl (after (read (spec_engine I) f self)))"
    by (simp add: read_def after_discard after_forward call_spec_engine mutate_unpopulated)
  have rd: "unpopulated (impl (after (readData (spec_engine I) f self)))"
    by (simp add: readData_def after_discard after_forward call_spec_engine
        mutate_unpopulated)
  have rs: "unpopulated (impl (after (reset (spec_engine I) self)))"
    using e by (simp add: reset_def after_discard)
  have so: "collections (impl (after (setOption (spec_engine I) n v self)))
      = collections (impl self)"
    by (simp add: setOption_def after_forward after_raise call_spec_engine
        operate_collections)
  have go: "collections (impl (after (getOption mx (spec_engine I) n self)))
      = collections (impl self)"
    by (simp add: after_getOption option_value_spec_engine spec_option_value_state)
  have sd: "collections (impl (after (setData (spec_engine I) d self)))
      = collections (impl self)"
    by (cases d)
       (simp_all add: setData_def after_discard after_forward after_raise call_spec_engine
          assign_frame_collections)
  have sv: "collections (impl (after (solve (spec_engine I) self))) = collections (impl self)"
    by (simp add: solve_def after_discard after_forward call_spec_engine operate_collections)
  have gv: "collections (impl (after (getValue (spec_engine I) x self)))
      = collections (impl self)"
    by (simp add: getValue_def after_forward call_spec_engine query_collections)
  from e r rd rs so go sd sv gv show ?thesis by blast
qed

section \<open>The engine after the spec: a closed session\<close>

lemma spec_call_stays_closed: "\<not> running st \<Longrightarrow> \<not> running (snd (spec_call I c st))"
  by (cases c)
     (simp_all add: mutate_def operate_def query_def query_frame_def assign_frame_def
        get_entity_def list_entities_def guarded_def spec_option_value_def invalidate_all_def)

lemma invoke_stays_closed:
  "\<not> running (impl self) \<Longrightarrow> \<not> running (impl (after (invoke mx (spec_engine I) m self)))"
  by (rule invoke_engine_invariant [where P = "\<lambda>st. \<not> running st"])
     (simp_all add: call_spec_engine option_value_spec_engine spec_call_stays_closed
        spec_option_value_state)

lemma calls_stay_closed:
  "\<not> running (impl self) \<Longrightarrow> \<not> running (impl (calls mx (spec_engine I) ms self))"
proof (induction ms arbitrary: self)
  case Nil
  then show ?case by (simp add: calls_def)
next
  case (Cons m ms)
  have "\<not> running (impl (after (invoke mx (spec_engine I) m self)))"
    using Cons.prems by (rule invoke_stays_closed)
  then have "\<not> running (impl (calls mx (spec_engine I) ms
      (after (invoke mx (spec_engine I) m self))))"
    by (rule Cons.IH)
  then show ?case by (simp add: calls_def)
qed

lemma close_closes: "\<not> running (impl (after (close (spec_engine I) self)))"
  by (simp add: close_def after_discard after_forward call_spec_engine)

lemma closed_forward:
  "\<not> running (impl self) \<Longrightarrow> c \<noteq> Close \<Longrightarrow> c \<noteq> IsRunning \<Longrightarrow> c \<noteq> IsBusy \<Longrightarrow>
   fst (forward (spec_engine I) c self) = Inl EngineNotRunningError"
  by (cases c)
     (simp_all add: forward_def call_spec_engine mutate_def operate_def query_def
        query_frame_def assign_frame_def get_entity_def list_entities_def guarded_def
        spec_option_value_def split: prod.split)

text \<open>
  Claim C5 says that after \<^verbatim>\<open>close()\<close> every engine-forwarding operation, option access
  included, fails with EngineNotRunningError. Against the engine modelled from the spec,
  \<^verbatim>\<open>getOption\<close> on a closed session does not fail: the engine's failure is a
  \<^verbatim>\<open>RuntimeError\<close>, which \<^verbatim>\<open>getOption\<close> catches, and the method returns \<^verbatim>\<open>None\<close>.
\<close>

theorem closed_session_getOption_counterexample:
  "getOption 9223372036854775807 (spec_engine example_interpreter) ''solver''
     (after (close (spec_engine example_interpreter) example_session))
   = (Inr PyNone, [GetOption ''solver''],
      after (close (spec_engine example_interpreter) example_session))
   \<and> fst (getOption 9223372036854775807 (spec_engine example_interpreter) ''solver''
        (after (close (spec_engine example_interpreter) example_session)))
     \<noteq> Inl EngineNotRunningError"
  by (simp add: getOption_def close_def after_def discard_def wrap_def forward_def
      spec_engine_def spec_option_value_def example_session_def)

text \<open>
  Claim C5 as amended, against the engine modelled from the spec. Let \<open>c\<close> be a session
  after \<^verbatim>\<open>close()\<close> and any further method calls. The engine of \<open>c\<close> is not running: no
  method reopens it. On \<open>c\<close>, \<^verbatim>\<open>eval\<close>, \<^verbatim>\<open>reset\<close>, \<^verbatim>\<open>solve\<close>, \<^verbatim>\<open>read\<close>, \<^verbatim>\<open>readData\<close>,
  \<^verbatim>\<open>setOption\<close> with an integer, float, boolean or string value, the five entity lookups
  and the five entity collections fail with EngineNotRunningError; \<^verbatim>\<open>getOption\<close> returns
  \<^verbatim>\<open>None\<close> and leaves \<open>c\<close> as it is.
\<close>

theorem closed_session_operations:
  "c = calls mx (spec_engine I) ms (after (close (spec_engine I) self)) \<Longrightarrow>
     \<not> running (impl c)
   \<and> fst (eval (spec_engine I) s c) = Inl EngineNotRunningError
   \<and> fst (reset (spec_engine I) c) = Inl EngineNotRunningError
   \<and> fst (solve (spec_engine I) c) = Inl EngineNotRunningError
   \<and> fst (read (spec_engine I) f c) = Inl EngineNotRunningError
   \<and> fst (readData (spec_engine I) f c) = Inl EngineNotRunningError
   \<and> fst (setOption (spec_engine I) n (PyInt i) c) = Inl EngineNotRunningError
   \<and> fst (setOption (spec_engine I) n (PyFloat x) c) = Inl EngineNotRunningError
   \<and> fst (setOption (spec_engine I) n (PyBool b) c) = Inl EngineNotRunningError
   \<and> fst (setOption (spec_engine I) n (PyStr t) c) = Inl EngineNotRunningError
   \<and> fst (setOption (spec_engine I) n (PyUnicode t) c) = Inl EngineNotRunningError
   \<and> fst (getVariable (spec_engine I) n c) = Inl EngineNotRunningError
   \<and> fst (getConstraint (spec_engine I) n c) = Inl EngineNotRunningError
   \<and> fst (getObjective (spec_engine I) n c) = Inl EngineNotRunningError
   \<and> fst (getSet (spec_engine I) n c) = Inl EngineNotRunningError
   \<and> fst (getParameter (spec_engine I) n c) = Inl EngineNotRunningError
   \<and> fst (getVariables (spec_engine I) c) = Inl EngineNotRunningError
   \<and> fst (getConstraints (spec_engine I) c) = Inl EngineNotRunningError
   \<and> fst (getObjectives (spec_engine I) c) = Inl EngineNotRunningError
   \<and> fst (getSets (spec_engine I) c) = Inl EngineNotRunningError
   \<and> fst (getParameters (spec_engine I) c) = Inl EngineNotRunningError
   \<and> getOption mx (spec_engine I) n c = (Inr PyNone, [GetOption n], c)"
proof -
  assume cdef: "c = calls mx (spec_engine I) ms (after (close (spec_engine I) self))"
  have closed: "\<not> running (impl c)"
    unfolding cdef by (rule calls_stay_closed) (rule close_closes)
  note fw = closed_forward [OF closed]
  have go: "getOption mx (spec_engine I) n c = (Inr PyNone, [GetOption n], c)"
    using closed by (simp add: getOption_def option_value_spec_engine spec_option_value_def)
  show ?thesis
    using closed go
    by (simp add: eval_def reset_def solve_def read_def readData_def setOption_def
        isinstance_def getVariable_def getConstraint_def getObjective_def getSet_def
        getParameter_def getVariables_def getConstraints_def getObjectives_def getSets_def
        getParameters_def fst_discard_Inl fst_wrap_Inl fw)
qed

theorem closed_session_operations_witness:
  "\<not> running (impl (calls 9223372036854775807 (spec_engine example_interpreter)
        [M_solve, M_getVariables]
        (after (close (spec_engine example_interpreter) example_session))))
   \<and> fst (eval (spec_engine example_interpreter) ''var z;''
        (calls 9223372036854775807 (spec_engine example_interpreter)
           [M_solve, M_getVariables]
           (after (close (spec_engine example_interpreter) example_session))))
     = Inl EngineNotRunningError
   \<and> fst (getVariable (spec_engine example_interpreter) ''x''
        (calls 9223372036854775807 (spec_engine example_interpreter)
           [M_solve, M_getVariables]
           (after (close (spec_engine example_interpreter) example_session))))
     = Inl EngineNotRunningError
   \<and> fst (getOption 9223372036854775807 (spec_engine example_interpreter) ''solver''
        (calls 9223372036854775807 (spec_engine example_interpreter)
           [M_solve, M_getVariables]
           (after (close (spec_engine example_interpreter) example_session))))
     = Inr PyNone"
  using closed_session_operations
      [where mx = 9223372036854775807 and I = example_interpreter
         and ms = "[M_solve, M_getVariables]" and self = example_session
         and s = "''var z;''" and n = "''x''", OF refl]
    closed_session_operations
      [where mx = 9223372036854775807 and I = example_interpreter
         and ms = "[M_solve, M_getVariables]" and self = example_session
         and n = "''solver''", OF refl]
  by simp

section \<open>The engine after the spec: the round trip of a frame\<close>

lemma assign_rows_own_values: "assign_rows (map (\<lambda>i. (i, f i)) ks) f = f"
  by (induction ks) (simp_all add: assign_rows_def)

lemma rows_of_frame_fit:
  "list_all (row_fits (frame_of name e) e) (rows (frame_of name e))
     = list_all (\<lambda>i. length i = length (indexing e)) (keys e)"
  by (auto simp: frame_of_def row_fits_def list_all_iff)

lemma assign_own_frame:
  assumes r: "running st" and d: "map_of (entities (model st)) name = Some e"
  shows "assign_frame (PyHandle (DataFrameRef (frame_of name e))) st
           = (if list_all (\<lambda>i. length i = length (indexing e)) (keys e) then Inr PyNone
              else Inl IndexMismatchError, st)"
proof -
  have c: "columnNames (frame_of name e) \<noteq> []" "last (columnNames (frame_of name e)) = name"
    by (simp_all add: frame_of_def)
  have v: "e\<lparr>value_at := assign_rows (rows (frame_of name e)) (value_at e)\<rparr> = e"
    by (simp add: frame_of_def assign_rows_own_values)
  have u: "AList.update name e (entities (model st)) = entities (model st)"
    using d by (rule update_triv)
  show ?thesis
    using r d by (simp add: assign_frame_def c v u rows_of_frame_fit)
qed

lemma example_declares_cost:
  "running (impl example_session)
   \<and> map_of (entities (model (impl example_session))) ''cost'' = Some example_cost"
  by (simp add: example_session_def)

lemma example_cost_frame:
  "frame_of ''cost'' example_cost =
     \<lparr>columnNames = [''ORIG'', ''cost''],
      rows = [([Str ''GARY''], Num (Finite False 39)), ([Str ''CLEV''], Num (Finite False 27))]\<rparr>"
  by (simp add: frame_of_def example_cost_def)

text \<open>
  Claim C6, against the engine modelled from the spec. For a running session and every
  declared entity, \<^verbatim>\<open>getData\<close> of the entity's name returns the frame of its current
  data and changes nothing, and \<^verbatim>\<open>setData\<close> of that same frame leaves the session, and so
  every value the engine holds, identical. The assignment succeeds when every index tuple
  of the entity has the arity of its index columns.
\<close>

theorem getData_setData_round_trip:
  "running (impl self) \<Longrightarrow> map_of (entities (model (impl self))) name = Some e \<Longrightarrow>
     getData (spec_engine I) [name] self
       = (Inr (DataFrame (PyHandle (DataFrameRef (frame_of name e)))), [GetData [name] 1], self)
   \<and> after (setData (spec_engine I) (DataFrame (PyHandle (DataFrameRef (frame_of name e)))) self)
       = self
   \<and> (list_all (\<lambda>i. length i = length (indexing e)) (keys e) \<longrightarrow>
        setData (spec_engine I) (DataFrame (PyHandle (DataFrameRef (frame_of name e)))) self
          = (Inr PyNone, [SetData (PyHandle (DataFrameRef (frame_of name e)))], self))"
proof -
  assume r: "running (impl self)" and d: "map_of (entities (model (impl self))) name = Some e"
  have g: "getData (spec_engine I) [name] self
       = (Inr (DataFrame (PyHandle (DataFrameRef (frame_of name e)))), [GetData [name] 1], self)"
    using r d by (simp add: getData_def wrap_def forward_def call_spec_engine query_frame_def)
  have s: "setData (spec_engine I) (DataFrame (PyHandle (DataFrameRef (frame_of name e)))) self
       = (if list_all (\<lambda>i. length i = length (indexing e)) (keys e) then Inr PyNone
          else Inl IndexMismatchError,
          [SetData (PyHandle (DataFrameRef (frame_of name e)))], self)"
    by (simp add: setData_def discard_def wrap_def forward_def call_spec_engine
        assign_own_frame [OF r d])
  show ?thesis
    unfolding g s by (simp add: after_def)
qed

theorem getData_setData_round_trip_witness:
  "getData (spec_engine example_interpreter) [''cost''] example_session
     = (Inr (DataFrame (PyHandle (DataFrameRef
          \<lparr>columnNames = [''ORIG'', ''cost''],
           rows = [([Str ''GARY''], Num (Finite False 39)),
                   ([Str ''CLEV''], Num (Finite False 27))]\<rparr>))),
        [GetData [''cost''] 1], example_session)
   \<and> setData (spec_engine example_interpreter)
       (DataFrame (PyHandle (DataFrameRef
          \<lparr>columnNames = [''ORIG'', ''cost''],
           rows = [([Str ''GARY''], Num (Finite False 39)),
                   ([Str ''CLEV''], Num (Finite False 27))]\<rparr>)))
       example_session
     = (Inr PyNone,
        [SetData (PyHandle (DataFrameRef
          \<lparr>columnNames = [''ORIG'', ''cost''],
           rows = [([Str ''GARY''], Num (Finite False 39)),
                   ([Str ''CLEV''], Num (Finite False 27))]\<rparr>))],
        example_session)"
  using getData_setData_round_trip
      [of example_session "''cost''" example_cost example_interpreter]
    example_declares_cost
  by (simp add: example_cost_frame) (simp add: example_cost_def)

end
